theory Spec2Isabelle
  imports Main "HOL-Library.AList"
begin

section \<open>Python values\<close>

text \<open>
  Python strings are modelled as \<open>string\<close>. The source's message literals are Russian;
  they are written here letter by letter in Latin transliteration (soft signs dropped),
  one named constant per literal, since a HOL string literal holds ASCII only.
  \<open>Optional[str]\<close> is \<open>string option\<close>; \<open>truthy\<close> is Python's truth value of such a
  value: \<open>None\<close> and the empty string are false.
\<close>

definition truthy :: "string option \<Rightarrow> bool" where
  "truthy v = (case v of None \<Rightarrow> False | Some s \<Rightarrow> s \<noteq> [])"

text \<open>\<open>x or y\<close> on an optional list: the left operand unless it is \<open>None\<close> or empty.\<close>

definition py_or :: "'a list option \<Rightarrow> 'a list \<Rightarrow> 'a list" where
  "py_or x y = (case x of None \<Rightarrow> y | Some xs \<Rightarrow> if xs = [] then y else xs)"

text \<open>\<open>str(n)\<close> for an integer: decimal digits, with a minus sign when negative.\<close>

definition digit_char :: "nat \<Rightarrow> char" where
  "digit_char d = ''0123456789'' ! d"

fun str_nat :: "nat \<Rightarrow> string" where
  "str_nat n = (if n < 10 then [digit_char n] else str_nat (n div 10) @ [digit_char (n mod 10)])"

definition str_int :: "int \<Rightarrow> string" where
  "str_int i = (if i < 0 then CHR ''-'' # str_nat (nat (- i)) else str_nat (nat i))"

section \<open>Exceptions\<close>

text \<open>
  Every exception the modelled code can meet is a subclass of Python's \<open>Exception\<close>.
  Each value carries \<open>str(e)\<close>; a \<open>TwilioRestException\<close> carries its \<open>msg\<close> attribute
  first. \<open>quoted\<close> puts a name between the single quotation marks of Python's
  messages.
\<close>

definition quoted :: "string \<Rightarrow> string" where
  "quoted s = CHR 0x27 # s @ [CHR 0x27]"

datatype exn =
    AttributeError string
  | IntegrityError string
  | TwilioRestException string string
  | RequestException string
  | OtherException string

fun str :: "exn \<Rightarrow> string" where
  "str (AttributeError s) = s"
| "str (IntegrityError s) = s"
| "str (TwilioRestException m s) = s"
| "str (RequestException s) = s"
| "str (OtherException s) = s"

section \<open>models.py\<close>

definition EMAIL :: string where "EMAIL = ''email''"
definition SMS :: string where "SMS = ''sms''"
definition TELEGRAM :: string where "TELEGRAM = ''telegram''"

record UserProfile =
  phone_number :: "string option"
  email :: "string option"
  telegram_chat_id :: "string option"

record Notification =
  user :: int
  title :: string
  message :: string
  is_delivered :: bool

record NotificationLog =
  notification :: int
  channel :: string
  status :: bool
  error_message :: "string option"

section \<open>Settings\<close>

text \<open>
  \<open>django.conf.settings\<close> is a parameter. \<open>cfg name = None\<close> means that the settings
  object has no attribute of that name; \<open>cfg name = Some v\<close> that it is defined with
  value \<open>v\<close>, where \<open>v = None\<close> is Python's \<open>None\<close>. \<open>getattr\<close> without a default
  raises \<open>AttributeError\<close> on a missing attribute, \<open>getattr_default\<close> returns the
  default instead.
\<close>

type_synonym settings = "string \<Rightarrow> string option option"

definition getattr :: "settings \<Rightarrow> string \<Rightarrow> exn + string option" where
  "getattr cfg name =
     (case cfg name of
        None \<Rightarrow>
          Inl (AttributeError (quoted ''Settings'' @ '' object has no attribute '' @ quoted name))
      | Some v \<Rightarrow> Inr v)"

definition getattr_default :: "settings \<Rightarrow> string \<Rightarrow> string option \<Rightarrow> string option" where
  "getattr_default cfg name d = (case cfg name of None \<Rightarrow> d | Some v \<Rightarrow> v)"

section \<open>The network\<close>

text \<open>
  The three transports are outside the program. A state of the network is the list of
  requests issued so far, oldest first; a sender that issues a request appends it.
  What the outside answers is a parameter: a \<open>world\<close> gives, for the requests issued so
  far and the new request, either an exception or a normal return. For the chat-bot call
  the normal return is the decoded response body: its \<open>ok\<close> flag and its \<open>description\<close>
  field, which is \<open>None\<close> when the key is missing, \<open>Some None\<close> when it is present
  with the value null and \<open>Some (Some s)\<close> when it is a string (the call stands for
  \<open>requests.post\<close>, \<open>raise_for_status\<close> and \<open>response.json\<close> together).
\<close>

datatype request =
    SendMail string string "string option" "string list"
  | TwilioMessagesCreate "string option" "string option" string "string option" string
  | RequestsPost string string string string

type_synonym network = "request list"

record world =
  mail_reply :: "network \<Rightarrow> request \<Rightarrow> exn option"
  twilio_reply :: "network \<Rightarrow> request \<Rightarrow> exn option"
  telegram_reply :: "network \<Rightarrow> request \<Rightarrow> exn + (bool \<times> string option option)"

section \<open>services.py\<close>

subsection \<open>The address pattern\<close>

text \<open>
  \<open>re.match\<close> succeeds when some prefix of the string matches the pattern. The pattern
  of \<open>send_email\<close> is a sequence of pieces, each one character class or a character
  class repeated one or more times.
\<close>

datatype atom = Lit char | NotLit char

datatype piece = One atom | Plus atom

fun atom_ok :: "atom \<Rightarrow> char \<Rightarrow> bool" where
  "atom_ok (Lit a) c = (c = a)"
| "atom_ok (NotLit a) c = (c \<noteq> a)"

fun re_match :: "piece list \<Rightarrow> string \<Rightarrow> bool" where
  "re_match [] s = True"
| "re_match (One a # ps) [] = False"
| "re_match (One a # ps) (c # s) = (atom_ok a c \<and> re_match ps s)"
| "re_match (Plus a # ps) [] = False"
| "re_match (Plus a # ps) (c # s) =
     (atom_ok a c \<and> (re_match (Plus a # ps) s \<or> re_match ps s))"

definition EMAIL_RE :: "piece list" where
  "EMAIL_RE = [Plus (NotLit CHR ''@''), One (Lit CHR ''@''), Plus (NotLit CHR ''@''),
               One (Lit CHR ''.''), Plus (NotLit CHR ''@'')]"

subsection \<open>Message literals of services.py\<close>

definition msg_invalid_email :: string where
  "msg_invalid_email = ''Nekorrektnyj email-adres''"

definition msg_smtp_not_configured :: string where
  "msg_smtp_not_configured = ''Nastrojki SMTP servera ne nastroeny''"

definition msg_phone_missing :: string where
  "msg_phone_missing = ''Nomer telefona ne ukazan''"

definition msg_phone_format :: "string \<Rightarrow> string" where
  "msg_phone_format phone = ''Nekorrektnyj format nomera: '' @ phone"

definition msg_twilio_not_configured :: string where
  "msg_twilio_not_configured = ''Ne nastroeny parametry Twilio SMS-servisa''"

definition msg_twilio_error :: "string \<Rightarrow> string" where
  "msg_twilio_error m = ''Oshibka Twilio: '' @ m"

definition msg_chat_missing :: string where
  "msg_chat_missing = ''ID chata Telegram ne ukazan''"

definition msg_telegram_not_configured :: string where
  "msg_telegram_not_configured = ''Ne nastroen token Telegram bota''"

definition msg_unknown_error :: string where
  "msg_unknown_error = ''Neizvestnaya oshibka''"

definition msg_telegram_service :: "string \<Rightarrow> string" where
  "msg_telegram_service s = ''Oshibka servisa Telegram: '' @ s"

subsection \<open>send_email\<close>

text \<open>
  A sender returns either an exception that leaves it (\<open>Inl\<close>) or its pair of success
  flag and error text (\<open>Inr\<close>), together with the network after it. \<open>send_email_try\<close>
  is the body of the \<open>try\<close> block, \<open>send_email\<close> adds the \<open>except Exception\<close> handler.
  Logging calls have no effect on the result and are left out, as is the test of
  \<open>EMAIL_BACKEND\<close>, which only logs.
\<close>

type_synonym send_result = "(exn + (bool \<times> string option)) \<times> network"

definition send_email_try ::
  "settings \<Rightarrow> world \<Rightarrow> string option \<Rightarrow> string \<Rightarrow> string \<Rightarrow> network \<Rightarrow> send_result" where
  "send_email_try cfg w email' title' message' net =
     (case email' of
        None \<Rightarrow> (Inr (False, Some msg_invalid_email), net)
      | Some addr \<Rightarrow>
          if addr = [] \<or> \<not> re_match EMAIL_RE addr
          then (Inr (False, Some msg_invalid_email), net)
          else
            let email_host = getattr_default cfg ''EMAIL_HOST'' None;
                email_user = getattr_default cfg ''EMAIL_HOST_USER'' None
            in if \<not> truthy email_host \<or> email_host = Some ''smtp.example.com''
                  \<or> \<not> truthy email_user
               then (Inr (False, Some msg_smtp_not_configured), net)
               else
                 (case getattr cfg ''DEFAULT_FROM_EMAIL'' of
                    Inl e \<Rightarrow> (Inl e, net)
                  | Inr from_email \<Rightarrow>
                      let req = SendMail title' message' from_email [addr]
                      in (case mail_reply w net req of
                            Some e \<Rightarrow> (Inl e, net @ [req])
                          | None \<Rightarrow> (Inr (True, None), net @ [req]))))"

definition send_email ::
  "settings \<Rightarrow> world \<Rightarrow> string option \<Rightarrow> string \<Rightarrow> string \<Rightarrow> network \<Rightarrow> send_result" where
  "send_email cfg w email' title' message' net =
     (case send_email_try cfg w email' title' message' net of
        (Inl e, net') \<Rightarrow> (Inr (False, Some (str e)), net')
      | (Inr r, net') \<Rightarrow> (Inr r, net'))"

subsection \<open>send_sms\<close>

text \<open>
  \<open>re.sub\<close> with the class of non-digits keeps the decimal digits. Among the characters
  of \<open>string\<close> these are \<open>0\<close> to \<open>9\<close>.
\<close>

definition is_digit :: "char \<Rightarrow> bool" where
  "is_digit c = (c \<in> set ''0123456789'')"

definition send_sms_try ::
  "settings \<Rightarrow> world \<Rightarrow> string option \<Rightarrow> string \<Rightarrow> network \<Rightarrow> send_result" where
  "send_sms_try cfg w phone message' net =
     (case phone of
        None \<Rightarrow> (Inr (False, Some msg_phone_missing), net)
      | Some ph \<Rightarrow>
          if ph = [] then (Inr (False, Some msg_phone_missing), net)
          else
            let phone_cleaned = filter is_digit ph
            in if length phone_cleaned < 10
               then (Inr (False, Some (msg_phone_format ph)), net)
               else
                 (case getattr cfg ''TWILIO_ACCOUNT_SID'' of
                    Inl e \<Rightarrow> (Inl e, net)
                  | Inr account_sid \<Rightarrow>
                 (case getattr cfg ''TWILIO_AUTH_TOKEN'' of
                    Inl e \<Rightarrow> (Inl e, net)
                  | Inr auth_token \<Rightarrow>
                 (case getattr cfg ''TWILIO_PHONE_NUMBER'' of
                    Inl e \<Rightarrow> (Inl e, net)
                  | Inr from_number \<Rightarrow>
                      if \<not> truthy account_sid \<or> \<not> truthy auth_token \<or> \<not> truthy from_number
                      then (Inr (False, Some msg_twilio_not_configured), net)
                      else
                        let req = TwilioMessagesCreate account_sid auth_token message'
                                    from_number (''+'' @ phone_cleaned)
                        in (case twilio_reply w net req of
                              Some e \<Rightarrow> (Inl e, net @ [req])
                            | None \<Rightarrow> (Inr (True, None), net @ [req]))))))"

definition send_sms ::
  "settings \<Rightarrow> world \<Rightarrow> string option \<Rightarrow> string \<Rightarrow> network \<Rightarrow> send_result" where
  "send_sms cfg w phone message' net =
     (case send_sms_try cfg w phone message' net of
        (Inl (TwilioRestException m s), net') \<Rightarrow> (Inr (False, Some (msg_twilio_error m)), net')
      | (Inl e, net') \<Rightarrow> (Inr (False, Some (str e)), net')
      | (Inr r, net') \<Rightarrow> (Inr r, net'))"

subsection \<open>send_telegram\<close>

definition send_telegram_try ::
  "settings \<Rightarrow> world \<Rightarrow> string option \<Rightarrow> string \<Rightarrow> network \<Rightarrow> send_result" where
  "send_telegram_try cfg w chat_id message' net =
     (case chat_id of
        None \<Rightarrow> (Inr (False, Some msg_chat_missing), net)
      | Some cid \<Rightarrow>
          if cid = [] then (Inr (False, Some msg_chat_missing), net)
          else
            (case getattr cfg ''TELEGRAM_BOT_TOKEN'' of
               Inl e \<Rightarrow> (Inl e, net)
             | Inr None \<Rightarrow> (Inr (False, Some msg_telegram_not_configured), net)
             | Inr (Some bot_token) \<Rightarrow>
                 if bot_token = []
                 then (Inr (False, Some msg_telegram_not_configured), net)
                 else
                   let api_url = ''https://api.telegram.org/bot'' @ bot_token @ ''/sendMessage'';
                       req = RequestsPost api_url cid message' ''HTML''
                   in (case telegram_reply w net req of
                         Inl e \<Rightarrow> (Inl e, net @ [req])
                       | Inr (ok, description) \<Rightarrow>
                           if ok then (Inr (True, None), net @ [req])
                           else
                             (case description of
                                None \<Rightarrow> (Inr (False, Some msg_unknown_error), net @ [req])
                              | Some error_description \<Rightarrow>
                                  (Inr (False, error_description), net @ [req])))))"

definition send_telegram ::
  "settings \<Rightarrow> world \<Rightarrow> string option \<Rightarrow> string \<Rightarrow> network \<Rightarrow> send_result" where
  "send_telegram cfg w chat_id message' net =
     (case send_telegram_try cfg w chat_id message' net of
        (Inl (RequestException s), net') \<Rightarrow> (Inr (False, Some (msg_telegram_service s)), net')
      | (Inl e, net') \<Rightarrow> (Inr (False, Some (str e)), net')
      | (Inr r, net') \<Rightarrow> (Inr r, net'))"

section \<open>tasks.py: channel selection\<close>

definition get_available_channels :: "UserProfile \<Rightarrow> string list" where
  "get_available_channels profile =
     (let channels = [];
          channels = (if truthy (email profile) then channels @ [EMAIL] else channels);
          channels = (if truthy (phone_number profile) then channels @ [SMS] else channels);
          channels = (if truthy (telegram_chat_id profile) then channels @ [TELEGRAM] else channels)
      in channels)"

section \<open>The database\<close>

text \<open>
  The tables the task reads and writes. \<open>users\<close> holds the ids of the \<open>User\<close> rows,
  \<open>profiles\<close> the profile of a user id (the relation is one-to-one), \<open>notifications\<close>
  the \<open>Notification\<close> rows by primary key, \<open>logs\<close> the \<open>NotificationLog\<close> rows in
  the order of their creation. Timestamps are left out, and so are the length limits
  of the character columns, which \<open>objects.create\<close> and \<open>save\<close> do not validate.
\<close>

record database =
  users :: "int list"
  profiles :: "(int \<times> UserProfile) list"
  notifications :: "(int \<times> Notification) list"
  logs :: "NotificationLog list"

text \<open>A loaded model instance: its primary key and its fields. Python's \<open>None\<close> is \<open>None\<close>.\<close>

type_synonym notification_obj = "(int \<times> Notification) option"

text \<open>
  The key of a new row: one more than the greatest key of the table, and at least 1. The
  sequence of the database is not modelled beyond that.
\<close>

definition fresh_id :: "(int \<times> Notification) list \<Rightarrow> int" where
  "fresh_id ns = 1 + fold max (map fst ns) 0"

definition Notification_create ::
  "int \<Rightarrow> string \<Rightarrow> string \<Rightarrow> database \<Rightarrow> (int \<times> Notification) \<times> database" where
  "Notification_create user' title' message' db =
     (let new_id = fresh_id (notifications db);
          row = \<lparr>user = user', title = title', message = message', is_delivered = False\<rparr>
      in ((new_id, row), db\<lparr>notifications := notifications db @ [(new_id, row)]\<rparr>))"

text \<open>
  \<open>notification.is_delivered = v; notification.save()\<close>: on \<open>None\<close> the assignment
  raises \<open>AttributeError\<close>; otherwise the row of the instance's key is written.
\<close>

definition set_delivered_and_save ::
  "notification_obj \<Rightarrow> bool \<Rightarrow> database \<Rightarrow> exn + (int \<times> Notification) \<times> database" where
  "set_delivered_and_save notification' v db =
     (case notification' of
        None \<Rightarrow>
          Inl (AttributeError
                 (quoted ''NoneType'' @ '' object has no attribute '' @ quoted ''is_delivered''))
      | Some (i, n) \<Rightarrow>
          let n' = n\<lparr>is_delivered := v\<rparr>
          in Inr ((i, n'), db\<lparr>notifications := AList.update i n' (notifications db)\<rparr>))"

text \<open>
  \<open>NotificationLog.objects.create\<close>: the foreign key \<open>notification\<close> is declared
  without \<open>null=True\<close>, so a row whose notification is \<open>None\<close> is refused by the
  database with an \<open>IntegrityError\<close>; any other row is appended.
\<close>

definition NotificationLog_create ::
  "notification_obj \<Rightarrow> string \<Rightarrow> bool \<Rightarrow> string option \<Rightarrow> database \<Rightarrow> exn + database" where
  "NotificationLog_create notification' channel' status' error_message' db =
     (case notification' of
        None \<Rightarrow> Inl (IntegrityError ''NOT NULL constraint failed: notification_id'')
      | Some (i, n) \<Rightarrow>
          Inr (db\<lparr>logs := logs db @
                 [\<lparr>notification = i, channel = channel', status = status',
                   error_message = error_message'\<rparr>]\<rparr>))"

section \<open>tasks.py\<close>

subsection \<open>Message literals of tasks.py\<close>

definition msg_user_not_found :: "int \<Rightarrow> string" where
  "msg_user_not_found user_id = ''Polzovatel s ID '' @ str_int user_id @ '' ne najden''"

definition msg_profile_not_found :: string where
  "msg_profile_not_found = ''Profil polzovatelya ne najden''"

definition msg_no_channels :: string where
  "msg_no_channels = ''Net dostupnykh kanalov dlya otpravki''"

definition msg_all_failed :: string where
  "msg_all_failed = ''Ne udalos dostavit ni po odnomu kanalu''"

definition msg_email_missing :: string where
  "msg_email_missing = ''Email polzovatelya ne ukazan''"

definition msg_user_phone_missing :: string where
  "msg_user_phone_missing = ''Nomer telefona polzovatelya ne ukazan''"

definition msg_user_telegram_missing :: string where
  "msg_user_telegram_missing = ''Telegram ID polzovatelya ne ukazan''"

definition msg_unknown_channel :: "string \<Rightarrow> string" where
  "msg_unknown_channel channel' = ''Neizvestnyj kanal otpravki: '' @ channel'"

subsection \<open>The result dictionary\<close>

datatype pyval = PyStr string | PyInt int

type_synonym result = "(string \<times> pyval) list"

subsection \<open>_get_or_create_notification\<close>

definition get_or_create_notification ::
  "int \<Rightarrow> string \<Rightarrow> string \<Rightarrow> int option \<Rightarrow> database \<Rightarrow> notification_obj \<times> database" where
  "get_or_create_notification user' title' message' notification_id db =
     (case notification_id of
        None \<Rightarrow>
          (case Notification_create user' title' message' db of (n, db') \<Rightarrow> (Some n, db'))
      | Some nid \<Rightarrow>
          if nid \<noteq> 0
          then (case map_of (notifications db) nid of
                  Some n \<Rightarrow> (Some (nid, n), db)
                | None \<Rightarrow> (None, db))
          else (case Notification_create user' title' message' db of (n, db') \<Rightarrow> (Some n, db')))"

subsection \<open>_send_by_channel\<close>

definition send_by_channel ::
  "settings \<Rightarrow> world \<Rightarrow> string \<Rightarrow> UserProfile \<Rightarrow> string \<Rightarrow> string \<Rightarrow> network \<Rightarrow> send_result"
  where
  "send_by_channel cfg w channel' profile title' message' net =
     (if channel' = EMAIL then
        if \<not> truthy (email profile) then (Inr (False, Some msg_email_missing), net)
        else send_email cfg w (email profile) title' message' net
      else if channel' = SMS then
        if \<not> truthy (phone_number profile) then (Inr (False, Some msg_user_phone_missing), net)
        else send_sms cfg w (phone_number profile) message' net
      else if channel' = TELEGRAM then
        if \<not> truthy (telegram_chat_id profile)
        then (Inr (False, Some msg_user_telegram_missing), net)
        else send_telegram cfg w (telegram_chat_id profile) message' net
      else (Inr (False, Some (msg_unknown_channel channel')), net))"

subsection \<open>send_notification\<close>

text \<open>
  The state of a run is the database together with the network. The \<open>for\<close> loop over
  the channels is \<open>send_notification_loop\<close>; its first equation is the code after the
  loop. An exception that reaches the task's top level ends the run as \<open>Inl\<close>, with
  the state as it was when the exception was raised.
\<close>

type_synonym state = "database \<times> network"

fun send_notification_loop ::
  "settings \<Rightarrow> world \<Rightarrow> UserProfile \<Rightarrow> string \<Rightarrow> string \<Rightarrow> notification_obj \<Rightarrow>
   string list \<Rightarrow> state \<Rightarrow> (exn + result) \<times> state" where
  "send_notification_loop cfg w profile title' message' notification' [] (db, net) =
     (case set_delivered_and_save notification' False db of
        Inl e \<Rightarrow> (Inl e, (db, net))
      | Inr ((i, n), db') \<Rightarrow>
          (Inr [(''status'', PyStr ''error''), (''notification_id'', PyInt i),
                (''message'', PyStr msg_all_failed)], (db', net)))"
| "send_notification_loop cfg w profile title' message' notification' (channel' # rest) (db, net) =
     (case send_by_channel cfg w channel' profile title' message' net of
        (Inl e, net') \<Rightarrow> (Inl e, (db, net'))
      | (Inr (success, error_msg), net') \<Rightarrow>
          (case NotificationLog_create notification' channel' success error_msg db of
             Inl e \<Rightarrow> (Inl e, (db, net'))
           | Inr db' \<Rightarrow>
               if success then
                 (case set_delivered_and_save notification' True db' of
                    Inl e \<Rightarrow> (Inl e, (db', net'))
                  | Inr ((i, n), db'') \<Rightarrow>
                      (Inr [(''status'', PyStr ''success''), (''notification_id'', PyInt i),
                            (''channel'', PyStr channel')], (db'', net')))
               else send_notification_loop cfg w profile title' message' notification' rest
                      (db', net')))"

definition priority_channels :: "string list option \<Rightarrow> UserProfile \<Rightarrow> string list" where
  "priority_channels channels profile = py_or channels (get_available_channels profile)"

definition send_notification ::
  "settings \<Rightarrow> world \<Rightarrow> int \<Rightarrow> string \<Rightarrow> string \<Rightarrow> string list option \<Rightarrow> int option \<Rightarrow>
   state \<Rightarrow> (exn + result) \<times> state" where
  "send_notification cfg w user_id title' message' channels notification_id st =
     (case st of (db, net) \<Rightarrow>
        if user_id \<notin> set (users db)
        then (Inr [(''status'', PyStr ''error''),
                   (''message'', PyStr (msg_user_not_found user_id))],
              (db, net))
        else
          (case get_or_create_notification user_id title' message' notification_id db of
             (notification', db1) \<Rightarrow>
               (case map_of (profiles db1) user_id of
                  None \<Rightarrow>
                    (case set_delivered_and_save notification' False db1 of
                       Inl e \<Rightarrow> (Inl e, (db1, net))
                     | Inr ((i, n), db2) \<Rightarrow>
                         (Inr [(''status'', PyStr ''error''), (''notification_id'', PyInt i),
                               (''message'', PyStr msg_profile_not_found)], (db2, net)))
                | Some profile \<Rightarrow>
                    if priority_channels channels profile = []
                    then
                      (case set_delivered_and_save notification' False db1 of
                         Inl e \<Rightarrow> (Inl e, (db1, net))
                       | Inr ((i, n), db2) \<Rightarrow>
                           (Inr [(''status'', PyStr ''error''), (''notification_id'', PyInt i),
                                 (''message'', PyStr msg_no_channels)], (db2, net)))
                    else send_notification_loop cfg w profile title' message' notification'
                           (priority_channels channels profile) (db1, net))))"

text \<open>
  The selector in the words of the specification: the fixed priority list Email, SMS,
  ChatBot, keeping a channel exactly when its profile field is non-empty.
\<close>

definition populated :: "UserProfile \<Rightarrow> string \<Rightarrow> bool" where
  "populated profile c =
     ((c = EMAIL \<and> truthy (email profile)) \<or>
      (c = SMS \<and> truthy (phone_number profile)) \<or>
      (c = TELEGRAM \<and> truthy (telegram_chat_id profile)))"

definition selectChannels_spec :: "UserProfile \<Rightarrow> string list" where
  "selectChannels_spec profile = filter (populated profile) [EMAIL, SMS, TELEGRAM]"

section \<open>Notions used to state the properties\<close>

text \<open>
  \<open>failed_attempts\<close> calls the senders of a list of channels one after the other, as
  the loop does, and says whether every one of them fails: \<open>Some (es, net')\<close> when they
  all fail, with their error texts and the network after the last of them, \<open>None\<close>
  otherwise. \<open>failure_logs\<close> is the list of log rows of such a run of failures.
\<close>

fun failed_attempts ::
  "settings \<Rightarrow> world \<Rightarrow> UserProfile \<Rightarrow> string \<Rightarrow> string \<Rightarrow> string list \<Rightarrow> network \<Rightarrow>
   (string option list \<times> network) option" where
  "failed_attempts cfg w profile title' message' [] net = Some ([], net)"
| "failed_attempts cfg w profile title' message' (channel' # rest) net =
     (case send_by_channel cfg w channel' profile title' message' net of
        (Inr (False, e), net1) \<Rightarrow>
          (case failed_attempts cfg w profile title' message' rest net1 of
             None \<Rightarrow> None
           | Some (es, net2) \<Rightarrow> Some (e # es, net2))
      | (Inr (True, e), net1) \<Rightarrow> None
      | (Inl x, net1) \<Rightarrow> None)"

definition failure_logs :: "int \<Rightarrow> string list \<Rightarrow> string option list \<Rightarrow> NotificationLog list"
  where
  "failure_logs i cs es =
     map (\<lambda>(c, e). \<lparr>notification = i, channel = c, status = False, error_message = e\<rparr>)
       (zip cs es)"







text \<open>The contact address passes the sender's own validation.\<close>

definition valid_email :: "string option \<Rightarrow> bool" where
  "valid_email a = (case a of None \<Rightarrow> False | Some addr \<Rightarrow> addr \<noteq> [] \<and> re_match EMAIL_RE addr)"


definition known_channel :: "string \<Rightarrow> bool" where
  "known_channel c = (c = EMAIL \<or> c = SMS \<or> c = TELEGRAM)"

section \<open>Concrete settings, worlds and databases\<close>

definition settings_none :: settings where
  "settings_none = (\<lambda>name. None)"

definition settings_full :: settings where
  "settings_full = settings_none
     (''EMAIL_HOST'' := Some (Some ''smtp.corp.test''),
      ''EMAIL_HOST_USER'' := Some (Some ''mailer''),
      ''DEFAULT_FROM_EMAIL'' := Some (Some ''noreply@corp.test''),
      ''TWILIO_ACCOUNT_SID'' := Some (Some ''AC1''),
      ''TWILIO_AUTH_TOKEN'' := Some (Some ''tok''),
      ''TWILIO_PHONE_NUMBER'' := Some (Some ''+15550000000''),
      ''TELEGRAM_BOT_TOKEN'' := Some (Some ''123:abc''))"

text \<open>Settings whose SMS and chat-bot values are defined but empty, and without mail host.\<close>

definition settings_blank :: settings where
  "settings_blank = settings_none
     (''EMAIL_HOST_USER'' := Some (Some ''mailer''),
      ''DEFAULT_FROM_EMAIL'' := Some (Some ''noreply@corp.test''),
      ''TWILIO_ACCOUNT_SID'' := Some None,
      ''TWILIO_AUTH_TOKEN'' := Some (Some ''tok''),
      ''TWILIO_PHONE_NUMBER'' := Some (Some ''+15550000000''),
      ''TELEGRAM_BOT_TOKEN'' := Some (Some []))"

text \<open>A world in which every transport accepts every request.\<close>

definition world_up :: world where
  "world_up = \<lparr>mail_reply = (\<lambda>h r. None), twilio_reply = (\<lambda>h r. None),
               telegram_reply = (\<lambda>h r. Inr (True, None))\<rparr>"

text \<open>A world in which the mail server refuses the connection and the others accept.\<close>

definition world_mail_down :: world where
  "world_mail_down = \<lparr>mail_reply = (\<lambda>h r. Some (OtherException ''Connection refused'')),
               twilio_reply = (\<lambda>h r. None),
               telegram_reply = (\<lambda>h r. Inr (True, None))\<rparr>"

text \<open>A world in which every transport fails.\<close>

definition world_down :: world where
  "world_down = \<lparr>mail_reply = (\<lambda>h r. Some (OtherException ''Connection refused'')),
               twilio_reply = (\<lambda>h r. Some (TwilioRestException ''Invalid number'' ''HTTP 400'')),
               telegram_reply = (\<lambda>h r. Inr (False, Some (Some ''chat not found'')))\<rparr>"

definition profile_all :: UserProfile where
  "profile_all = \<lparr>phone_number = Some ''+1 (555) 123-4567'',
                  email = Some ''user@example.com'', telegram_chat_id = Some ''4242''\<rparr>"

definition profile_empty :: UserProfile where
  "profile_empty = \<lparr>phone_number = None, email = Some [], telegram_chat_id = None\<rparr>"

text \<open>
  A database with three users: user 1 has every contact field, user 2 has a profile
  without contact fields, user 3 has no profile. Notification 7 belongs to user 1.
\<close>

definition db_demo :: database where
  "db_demo = \<lparr>users = [1, 2, 3],
              profiles = [(1, profile_all), (2, profile_empty)],
              notifications =
                [(7, \<lparr>user = 1, title = ''Hello'', message = ''First'', is_delivered = True\<rparr>)],
              logs = []\<rparr>"

section \<open>Auxiliary facts\<close>

lemma re_match_Plus_NotLit:
  "re_match (Plus (NotLit x) # ps) s \<longleftrightarrow>
     (\<exists>a r. s = a @ r \<and> a \<noteq> [] \<and> x \<notin> set a \<and> re_match ps r)"
proof (induction s)
  case Nil
  then show ?case by simp
next
  case (Cons c s)
  show ?case
  proof
    assume "re_match (Plus (NotLit x) # ps) (c # s)"
    then have cx: "c \<noteq> x" and d: "re_match (Plus (NotLit x) # ps) s \<or> re_match ps s"
      by simp_all
    from d show "\<exists>a r. c # s = a @ r \<and> a \<noteq> [] \<and> x \<notin> set a \<and> re_match ps r"
    proof
      assume "re_match (Plus (NotLit x) # ps) s"
      with Cons.IH obtain a r where "s = a @ r" "a \<noteq> []" "x \<notin> set a" "re_match ps r"
        by blast
      with cx show ?thesis by (intro exI[of _ "c # a"] exI[of _ r]) simp
    next
      assume "re_match ps s"
      with cx show ?thesis by (intro exI[of _ "[c]"] exI[of _ s]) simp
    qed
  next
    assume "\<exists>a r. c # s = a @ r \<and> a \<noteq> [] \<and> x \<notin> set a \<and> re_match ps r"
    then obtain a r where e: "c # s = a @ r" and ne: "a \<noteq> []" and xa: "x \<notin> set a"
      and m: "re_match ps r" by blast
    from e ne obtain a' where a: "a = c # a'" and s: "s = a' @ r"
      by (cases a) auto
    show "re_match (Plus (NotLit x) # ps) (c # s)"
    proof (cases "a' = []")
      case True
      with a s xa m show ?thesis by auto
    next
      case False
      with s xa a m have "re_match (Plus (NotLit x) # ps) s"
        using Cons.IH by auto
      with a xa show ?thesis by auto
    qed
  qed
qed

lemma re_match_One_Lit:
  "re_match (One (Lit x) # ps) s \<longleftrightarrow> (\<exists>r. s = x # r \<and> re_match ps r)"
  by (cases s) auto

lemma re_match_EMAIL_RE:
  "re_match EMAIL_RE s \<longleftrightarrow>
     (\<exists>a b c r. s = a @ ''@'' @ b @ ''.'' @ c @ r
        \<and> a \<noteq> [] \<and> b \<noteq> [] \<and> c \<noteq> []
        \<and> CHR ''@'' \<notin> set a \<and> CHR ''@'' \<notin> set b \<and> CHR ''@'' \<notin> set c)"
  unfolding EMAIL_RE_def re_match_Plus_NotLit re_match_One_Lit
  by (simp, blast)

lemma send_email_returns:
  "\<exists>b e net'. send_email cfg w a t m net = (Inr (b, e), net')"
  by (auto simp: send_email_def split: prod.splits sum.splits)

lemma send_sms_returns:
  "\<exists>b e net'. send_sms cfg w a m net = (Inr (b, e), net')"
  by (auto simp: send_sms_def split: prod.splits sum.splits exn.splits)

lemma send_telegram_returns:
  "\<exists>b e net'. send_telegram cfg w a m net = (Inr (b, e), net')"
  by (auto simp: send_telegram_def split: prod.splits sum.splits exn.splits)

lemma send_by_channel_returns:
  "\<exists>b e net'. send_by_channel cfg w c p t m net = (Inr (b, e), net')"
  unfolding send_by_channel_def
  using send_email_returns send_sms_returns send_telegram_returns
  by auto

lemma set_delivered_and_save_Some:
  "set_delivered_and_save (Some (i, n)) v db =
     Inr ((i, n\<lparr>is_delivered := v\<rparr>),
          db\<lparr>notifications := AList.update i (n\<lparr>is_delivered := v\<rparr>) (notifications db)\<rparr>)"
  by (simp add: set_delivered_and_save_def Let_def)

lemma NotificationLog_create_Some:
  "NotificationLog_create (Some (i, n)) c s e db =
     Inr (db\<lparr>logs := logs db @
            [\<lparr>notification = i, channel = c, status = s, error_message = e\<rparr>]\<rparr>)"
  by (simp add: NotificationLog_create_def)

lemma failed_attempts_length:
  "failed_attempts cfg w p t m cs net = Some (es, net') \<Longrightarrow> length es = length cs"
proof (induction cs arbitrary: net es)
  case Nil
  then show ?case by simp
next
  case (Cons c cs)
  then show ?case
    by (auto split: prod.splits sum.splits bool.splits option.splits)
qed

lemma loop_skips_failures:
  "failed_attempts cfg w p t m pre net = Some (es, net1) \<Longrightarrow>
   send_notification_loop cfg w p t m (Some (i, n)) (pre @ rest) (db, net) =
   send_notification_loop cfg w p t m (Some (i, n)) rest
     (db\<lparr>logs := logs db @ failure_logs i pre es\<rparr>, net1)"
proof (induction pre arbitrary: net es db)
  case Nil
  then show ?case by (simp add: failure_logs_def)
next
  case (Cons c pre)
  from Cons.prems obtain e net0 es' where
    c: "send_by_channel cfg w c p t m net = (Inr (False, e), net0)"
    and r: "failed_attempts cfg w p t m pre net0 = Some (es', net1)"
    and es: "es = e # es'"
    by (auto split: prod.splits sum.splits bool.splits option.splits)
  show ?case
    using Cons.IH[OF r, of "db\<lparr>logs := logs db @
        [\<lparr>notification = i, channel = c, status = False, error_message = e\<rparr>]\<rparr>"] c es
    by (simp add: NotificationLog_create_Some failure_logs_def)
qed

lemma loop_returns:
  "\<exists>r db' net'. send_notification_loop cfg w p t m (Some (i, n)) cs (db, net) = (Inr r, (db', net'))"
proof (induction cs arbitrary: db net)
  case Nil
  then show ?case by (simp add: set_delivered_and_save_Some)
next
  case (Cons c cs)
  obtain b e net0 where c: "send_by_channel cfg w c p t m net = (Inr (b, e), net0)"
    using send_by_channel_returns by blast
  show ?case using c Cons.IH
    by (simp add: NotificationLog_create_Some set_delivered_and_save_Some)
qed

lemma failure_logs_channels:
  "length es = length cs \<Longrightarrow> map channel (failure_logs i cs es) = cs"
proof (induction cs arbitrary: es)
  case Nil
  then show ?case by (simp add: failure_logs_def)
next
  case (Cons c cs)
  then obtain e es' where "es = e # es'" by (cases es) auto
  with Cons show ?case by (simp add: failure_logs_def)
qed

lemma get_or_create_notification_frame:
  "get_or_create_notification u t m nid db = (nobj, db1) \<Longrightarrow>
   users db1 = users db \<and> profiles db1 = profiles db \<and> logs db1 = logs db"
  by (auto simp: get_or_create_notification_def Notification_create_def Let_def
      split: option.splits if_splits)

lemma send_notification_enters_loop:
  assumes "u \<in> set (users db)"
    and "get_or_create_notification u t m nid db = (nobj, db1)"
    and "map_of (profiles db) u = Some p"
    and "priority_channels chans p \<noteq> []"
  shows "send_notification cfg w u t m chans nid (db, net) =
         send_notification_loop cfg w p t m nobj (priority_channels chans p) (db1, net)"
  using assms get_or_create_notification_frame[OF assms(2)]
  by (simp add: send_notification_def)

lemmas eval_defs =
  send_notification_def get_or_create_notification_def Notification_create_def fresh_id_def
  priority_channels_def py_or_def get_available_channels_def truthy_def
  send_by_channel_def send_email_def send_email_try_def send_sms_def send_sms_try_def
  send_telegram_def send_telegram_try_def getattr_def getattr_default_def is_digit_def
  EMAIL_RE_def EMAIL_def SMS_def TELEGRAM_def
  NotificationLog_create_def set_delivered_and_save_def
  settings_none_def settings_full_def settings_blank_def world_up_def world_mail_down_def
  world_down_def profile_all_def profile_empty_def db_demo_def failure_logs_def quoted_def Let_def

lemma loop_None_raises:
  "cs \<noteq> [] \<Longrightarrow>
   \<exists>e net'. send_notification_loop cfg w p t m None cs (db, net) = (Inl e, (db, net'))"
proof (cases cs)
  case Nil
  assume "cs \<noteq> []"
  with Nil show ?thesis by simp
next
  case (Cons c rest)
  obtain b e net0 where "send_by_channel cfg w c p t m net = (Inr (b, e), net0)"
    using send_by_channel_returns by blast
  with Cons show ?thesis by (simp add: NotificationLog_create_def)
qed

lemma loop_delivered_iff:
  "send_notification_loop cfg w p t m (Some (i, n)) cs (db, net) = (Inr r, (db', net')) \<Longrightarrow>
   \<exists>ls n'. logs db' = logs db @ ls
      \<and> list_all (\<lambda>l. notification l = i) ls
      \<and> map_of r ''notification_id'' = Some (PyInt i)
      \<and> map_of (notifications db') i = Some n'
      \<and> is_delivered n' = list_ex status ls
      \<and> is_delivered n' = (map_of r ''status'' = Some (PyStr ''success''))"
proof (induction cs arbitrary: db net)
  case Nil
  then show ?case
    by (auto simp: set_delivered_and_save_Some update_conv')
next
  case (Cons c cs)
  obtain b e net0 where c: "send_by_channel cfg w c p t m net = (Inr (b, e), net0)"
    using send_by_channel_returns by blast
  let ?l = "\<lparr>notification = i, channel = c, status = b, error_message = e\<rparr>"
  show ?case
  proof (cases b)
    case True
    with Cons.prems c have
      "db' = db\<lparr>logs := logs db @ [?l],
                notifications := AList.update i (n\<lparr>is_delivered := True\<rparr>) (notifications db)\<rparr>"
      and "r = [(''status'', PyStr ''success''), (''notification_id'', PyInt i),
                (''channel'', PyStr c)]"
      by (auto simp: NotificationLog_create_Some set_delivered_and_save_Some)
    with True show ?thesis
      by (intro exI[of _ "[?l]"] exI[of _ "n\<lparr>is_delivered := True\<rparr>"])
         (simp add: update_conv')
  next
    case False
    with Cons.prems c have
      "send_notification_loop cfg w p t m (Some (i, n)) cs (db\<lparr>logs := logs db @ [?l]\<rparr>, net0)
         = (Inr r, (db', net'))"
      by (simp add: NotificationLog_create_Some)
    from Cons.IH[OF this] obtain ls n' where
      "logs db' = (logs db @ [?l]) @ ls"
      "list_all (\<lambda>l. notification l = i) ls"
      "map_of r ''notification_id'' = Some (PyInt i)"
      "map_of (notifications db') i = Some n'"
      "is_delivered n' = list_ex status ls"
      "is_delivered n' = (map_of r ''status'' = Some (PyStr ''success''))"
      by auto
    with False show ?thesis
      by (intro exI[of _ "?l # ls"] exI[of _ n']) simp
  qed
qed

lemma completed_run_delivered_iff:
  assumes "send_notification cfg w u t m chans nid (db, net) = (Inr r, (db', net'))"
    and "map_of r ''notification_id'' = Some (PyInt i)"
  shows "\<exists>ls n'. logs db' = logs db @ ls
      \<and> list_all (\<lambda>l. notification l = i) ls
      \<and> map_of (notifications db') i = Some n'
      \<and> is_delivered n' = list_ex status ls
      \<and> is_delivered n' = (map_of r ''status'' = Some (PyStr ''success''))"
proof -
  have u: "u \<in> set (users db)"
    using assms by (auto simp: send_notification_def split: if_splits)
  obtain nobj db1 where g: "get_or_create_notification u t m nid db = (nobj, db1)"
    by (cases "get_or_create_notification u t m nid db") auto
  note fr = get_or_create_notification_frame[OF g]
  show ?thesis
  proof (cases nobj)
    case None
    show ?thesis
    proof (cases "map_of (profiles db) u")
      case None
      with assms(1) u g fr \<open>nobj = None\<close> show ?thesis
        by (simp add: send_notification_def set_delivered_and_save_def)
    next
      case (Some p)
      show ?thesis
      proof (cases "priority_channels chans p = []")
        case True
        with assms(1) u g fr Some \<open>nobj = None\<close> show ?thesis
          by (simp add: send_notification_def set_delivered_and_save_def)
      next
        case False
        from loop_None_raises[OF False] obtain e net0 where
          "send_notification_loop cfg w p t m None (priority_channels chans p) (db1, net)
             = (Inl e, (db1, net0))" by blast
        with assms(1) u g fr Some False \<open>nobj = None\<close> show ?thesis
          by (simp add: send_notification_def)
      qed
    qed
  next
    case (Some jn)
    obtain j n where jn: "jn = (j, n)" by (cases jn) auto
    show ?thesis
    proof (cases "map_of (profiles db) u")
      case None
      with assms u g fr Some jn show ?thesis
        by (auto simp: send_notification_def set_delivered_and_save_Some update_conv')
    next
      case (Some p)
      show ?thesis
      proof (cases "priority_channels chans p = []")
        case True
        with assms u g fr Some \<open>nobj = Some jn\<close> jn show ?thesis
          by (auto simp: send_notification_def set_delivered_and_save_Some update_conv')
      next
        case False
        with assms(1) u g fr Some \<open>nobj = Some jn\<close> jn have
          run: "send_notification_loop cfg w p t m (Some (j, n)) (priority_channels chans p) (db1, net)
             = (Inr r, (db', net'))"
          by (simp add: send_notification_def)
        from loop_delivered_iff[OF run] assms(2) fr show ?thesis by auto
      qed
    qed
  qed
qed

lemma loop_log_shape:
  "\<exists>r db' net' ls.
     send_notification_loop cfg w p t m (Some (i, n)) cs (db, net) = (Inr r, (db', net'))
     \<and> logs db' = logs db @ ls
     \<and> map channel ls = take (length ls) cs
     \<and> (length ls = length cs \<or> (ls \<noteq> [] \<and> status (last ls)))"
proof (induction cs arbitrary: db net)
  case Nil
  show ?case by (simp add: set_delivered_and_save_Some)
next
  case (Cons c cs)
  obtain b e net0 where c: "send_by_channel cfg w c p t m net = (Inr (b, e), net0)"
    using send_by_channel_returns by blast
  let ?l = "\<lparr>notification = i, channel = c, status = b, error_message = e\<rparr>"
  show ?case
  proof (cases b)
    case True
    show ?thesis
      using c True
      by (intro exI[of _ "[(''status'', PyStr ''success''), (''notification_id'', PyInt i),
                (''channel'', PyStr c)]"]
            exI[of _ "db\<lparr>logs := logs db @ [?l],
                notifications := AList.update i (n\<lparr>is_delivered := True\<rparr>) (notifications db)\<rparr>"]
            exI[of _ net0] exI[of _ "[?l]"])
         (simp add: NotificationLog_create_Some set_delivered_and_save_Some)
  next
    case False
    from Cons.IH[of "db\<lparr>logs := logs db @ [?l]\<rparr>" net0] obtain r db' net' ls where
      run: "send_notification_loop cfg w p t m (Some (i, n)) cs (db\<lparr>logs := logs db @ [?l]\<rparr>, net0)
          = (Inr r, (db', net'))"
      and lg: "logs db' = (logs db @ [?l]) @ ls"
      and ch: "map channel ls = take (length ls) cs"
      and en: "length ls = length cs \<or> (ls \<noteq> [] \<and> status (last ls))"
      by auto
    show ?thesis
      using c False run lg ch en
      by (intro exI[of _ r] exI[of _ db'] exI[of _ net'] exI[of _ "?l # ls"])
         (auto simp: NotificationLog_create_Some)
  qed
qed

lemma loop_logs_grow:
  assumes "cs \<noteq> []"
    and "send_notification_loop cfg w p t m (Some (i, n)) cs (db, net) = (res, (db', net'))"
  shows "length (logs db) < length (logs db')"
proof -
  from loop_log_shape[of cfg w p t m i n cs db net] assms(2) obtain ls where
    lg: "logs db' = logs db @ ls"
    and en: "length ls = length cs \<or> (ls \<noteq> [] \<and> status (last ls))"
    by auto
  from en assms(1) have "ls \<noteq> []" by auto
  with lg show ?thesis by simp
qed

lemma send_email_invalid_address:
  "\<not> valid_email a \<Longrightarrow> send_email cfg w a t m net = (Inr (False, Some msg_invalid_email), net)"
  by (auto simp: valid_email_def send_email_def send_email_try_def split: option.splits)




lemma loop_continues_after_failure:
  "send_by_channel cfg w c p t m net = (Inr (False, e), net') \<Longrightarrow>
   send_notification_loop cfg w p t m (Some (i, n)) (c # rest) (db, net) =
   send_notification_loop cfg w p t m (Some (i, n)) rest
     (db\<lparr>logs := logs db @
         [\<lparr>notification = i, channel = c, status = False, error_message = e\<rparr>]\<rparr>, net')"
  by (simp add: NotificationLog_create_Some)

lemma send_by_channel_unknown:
  "\<not> known_channel c \<Longrightarrow>
   send_by_channel cfg w c p t m net = (Inr (False, Some (msg_unknown_channel c)), net)"
  by (simp add: known_channel_def send_by_channel_def)

lemma missing_notification_id_always_raises:
  assumes "u \<in> set (users db)" and "k \<noteq> 0" and "map_of (notifications db) k = None"
  shows "\<exists>e net'. send_notification cfg w u t m chans (Some k) (db, net) = (Inl e, (db, net'))"
proof -
  have g: "get_or_create_notification u t m (Some k) db = (None, db)"
    using assms by (simp add: get_or_create_notification_def)
  show ?thesis
  proof (cases "map_of (profiles db) u")
    case None
    with assms(1) g show ?thesis
      by (simp add: send_notification_def set_delivered_and_save_def)
  next
    case (Some p)
    show ?thesis
    proof (cases "priority_channels chans p = []")
      case True
      with assms(1) g Some show ?thesis
        by (simp add: send_notification_def set_delivered_and_save_def)
    next
      case False
      from loop_None_raises[OF False, of cfg w p t m db net] assms(1) g Some False
      show ?thesis by (simp add: send_notification_def)
    qed
  qed
qed

lemma demo_run_mail_down:
  "send_notification settings_full world_mail_down 1 ''Alert'' ''Body'' None None (db_demo, []) =
     (Inr [(''status'', PyStr ''success''), (''notification_id'', PyInt 8),
           (''channel'', PyStr ''sms'')],
      (db_demo\<lparr>logs :=
          [\<lparr>notification = 8, channel = ''email'', status = False,
             error_message = Some ''Connection refused''\<rparr>,
           \<lparr>notification = 8, channel = ''sms'', status = True, error_message = None\<rparr>],
         notifications :=
          [(7, \<lparr>user = 1, title = ''Hello'', message = ''First'', is_delivered = True\<rparr>),
           (8, \<lparr>user = 1, title = ''Alert'', message = ''Body'', is_delivered = True\<rparr>)]\<rparr>,
       [SendMail ''Alert'' ''Body'' (Some ''noreply@corp.test'') [''user@example.com''],
        TwilioMessagesCreate (Some ''AC1'') (Some ''tok'') ''Body'' (Some ''+15550000000'')
          ''+15551234567'']))"
  by (simp add: eval_defs)

lemma resolved_run_delivered_iff:
  assumes "u \<in> set (users db)"
    and "get_or_create_notification u t m nid db = (Some (i, n), db1)"
  shows "\<exists>r db' net' ls n'.
      send_notification cfg w u t m chans nid (db, net) = (Inr r, (db', net'))
      \<and> map_of r ''notification_id'' = Some (PyInt i)
      \<and> logs db' = logs db @ ls
      \<and> list_all (\<lambda>l. notification l = i) ls
      \<and> map_of (notifications db') i = Some n'
      \<and> is_delivered n' = list_ex status ls
      \<and> is_delivered n' = (map_of r ''status'' = Some (PyStr ''success''))
      \<and> ((map_of (profiles db) u = None
           \<or> (\<exists>p. map_of (profiles db) u = Some p \<and> priority_channels chans p = []))
          \<longrightarrow> ls = [] \<and> \<not> is_delivered n')"
proof -
  note fr = get_or_create_notification_frame[OF assms(2)]
  let ?db2 = "db1\<lparr>notifications :=
                  AList.update i (n\<lparr>is_delivered := False\<rparr>) (notifications db1)\<rparr>"
  show ?thesis
  proof (cases "map_of (profiles db) u")
    case None
    have "send_notification cfg w u t m chans nid (db, net) =
          (Inr [(''status'', PyStr ''error''), (''notification_id'', PyInt i),
                (''message'', PyStr msg_profile_not_found)], (?db2, net))"
      using assms None fr by (simp add: send_notification_def set_delivered_and_save_Some)
    then show ?thesis
      using fr None
      by (intro exI[of _ "[(''status'', PyStr ''error''), (''notification_id'', PyInt i),
                (''message'', PyStr msg_profile_not_found)]"]
            exI[of _ ?db2] exI[of _ net] exI[of _ "[]"] exI[of _ "n\<lparr>is_delivered := False\<rparr>"])
         (simp add: update_conv')
  next
    case (Some p)
    show ?thesis
    proof (cases "priority_channels chans p = []")
      case True
      have "send_notification cfg w u t m chans nid (db, net) =
            (Inr [(''status'', PyStr ''error''), (''notification_id'', PyInt i),
                  (''message'', PyStr msg_no_channels)], (?db2, net))"
        using assms Some True fr
        by (simp add: send_notification_def set_delivered_and_save_Some)
      then show ?thesis
        using fr Some True
        by (intro exI[of _ "[(''status'', PyStr ''error''), (''notification_id'', PyInt i),
                  (''message'', PyStr msg_no_channels)]"]
              exI[of _ ?db2] exI[of _ net] exI[of _ "[]"] exI[of _ "n\<lparr>is_delivered := False\<rparr>"])
           (simp add: update_conv')
    next
      case False
      have e: "send_notification cfg w u t m chans nid (db, net) =
            send_notification_loop cfg w p t m (Some (i, n)) (priority_channels chans p) (db1, net)"
        by (rule send_notification_enters_loop[OF assms(1,2) Some False])
      from loop_returns[of cfg w p t m i n "priority_channels chans p" db1 net]
      obtain r db' net' where
        run: "send_notification_loop cfg w p t m (Some (i, n)) (priority_channels chans p)
                (db1, net) = (Inr r, (db', net'))" by blast
      from loop_delivered_iff[OF run] obtain ls n' where
        "logs db' = logs db1 @ ls"
        "list_all (\<lambda>l. notification l = i) ls"
        "map_of r ''notification_id'' = Some (PyInt i)"
        "map_of (notifications db') i = Some n'"
        "is_delivered n' = list_ex status ls"
        "is_delivered n' = (map_of r ''status'' = Some (PyStr ''success''))"
        by blast
      with e run fr Some False show ?thesis
        by (intro exI[of _ r] exI[of _ db'] exI[of _ net'] exI[of _ ls] exI[of _ n']) simp
    qed
  qed
qed

lemma demo_run_world_down:
  "send_notification settings_full world_down 1 ''Hello'' ''First'' None (Some 7) (db_demo, []) =
     (Inr [(''status'', PyStr ''error''), (''notification_id'', PyInt 7),
           (''message'', PyStr msg_all_failed)],
      (db_demo\<lparr>logs :=
          [\<lparr>notification = 7, channel = ''email'', status = False,
             error_message = Some ''Connection refused''\<rparr>,
           \<lparr>notification = 7, channel = ''sms'', status = False,
             error_message = Some ''Oshibka Twilio: Invalid number''\<rparr>,
           \<lparr>notification = 7, channel = ''telegram'', status = False,
             error_message = Some ''chat not found''\<rparr>],
         notifications :=
          [(7, \<lparr>user = 1, title = ''Hello'', message = ''First'', is_delivered = False\<rparr>)]\<rparr>,
       [SendMail ''Hello'' ''First'' (Some ''noreply@corp.test'') [''user@example.com''],
        TwilioMessagesCreate (Some ''AC1'') (Some ''tok'') ''First'' (Some ''+15550000000'')
          ''+15551234567'',
        RequestsPost ''https://api.telegram.org/bot123:abc/sendMessage'' ''4242'' ''First''
          ''HTML'']))"
  by (simp add: eval_defs msg_twilio_error_def)

section \<open>Properties\<close>

text \<open>
  C1, as stated, fails. User 1 has every contact field populated, every transport is up, and
  the caller passes an explicitly empty channel list: line 55 (\<open>channels or ...\<close>) replaces
  the empty list by the auto-selected channels, the mail is sent, one attempt is logged and
  the result is a success naming the email channel, not the "no available channels" error.
\<close>

theorem empty_explicit_list_counterexample:
  "send_notification settings_full world_up 1 ''Alert'' ''Body'' (Some []) None (db_demo, []) =
     (Inr [(''status'', PyStr ''success''), (''notification_id'', PyInt 8),
           (''channel'', PyStr ''email'')],
      (db_demo\<lparr>logs :=
          [\<lparr>notification = 8, channel = ''email'', status = True, error_message = None\<rparr>],
         notifications :=
          [(7, \<lparr>user = 1, title = ''Hello'', message = ''First'', is_delivered = True\<rparr>),
           (8, \<lparr>user = 1, title = ''Alert'', message = ''Body'', is_delivered = True\<rparr>)]\<rparr>,
       [SendMail ''Alert'' ''Body'' (Some ''noreply@corp.test'') [''user@example.com'']]))"
  by (simp add: eval_defs)

text \<open>
  C1, amended. An explicit channel list is used as the channel list when it is not empty; an
  explicitly empty list is replaced by the auto-selected channels, so that a run with an
  empty list is the same run as with no list at all. For a run whose recipient, notification
  and profile resolve, the run with an empty explicit list returns the "no available
  channels" error with the notification marked undelivered and no attempt logged when the
  profile has no populated contact field, and logs at least one attempt when it has one.
\<close>

theorem explicit_channels_used_unless_empty:
  "priority_channels (Some cs) p = (if cs = [] then get_available_channels p else cs)
   \<and> send_notification cfg w u t m (Some []) nid st = send_notification cfg w u t m None nid st
   \<and> (u \<in> set (users db) \<longrightarrow>
       get_or_create_notification u t m nid db = (Some (i, n), db1) \<longrightarrow>
       map_of (profiles db) u = Some p \<longrightarrow>
         (if get_available_channels p = []
          then send_notification cfg w u t m (Some []) nid (db, net) =
                 (Inr [(''status'', PyStr ''error''), (''notification_id'', PyInt i),
                       (''message'', PyStr msg_no_channels)],
                  (db1\<lparr>notifications :=
                         AList.update i (n\<lparr>is_delivered := False\<rparr>) (notifications db1)\<rparr>, net))
               \<and> logs db1 = logs db
          else length (logs db) <
                 length (logs (fst (snd (send_notification cfg w u t m (Some []) nid (db, net)))))))"
proof -
  have a: "priority_channels (Some cs) p = (if cs = [] then get_available_channels p else cs)"
    by (simp add: priority_channels_def py_or_def)
  have b: "send_notification cfg w u t m (Some []) nid st = send_notification cfg w u t m None nid st"
  proof -
    have pc: "priority_channels (Some []) q = priority_channels None q" for q
      by (simp add: priority_channels_def py_or_def)
    show ?thesis
      by (cases st) (simp add: send_notification_def pc split: prod.splits option.splits)
  qed
  have c: "send_notification cfg w u t m (Some []) nid (db, net) =
                 (Inr [(''status'', PyStr ''error''), (''notification_id'', PyInt i),
                       (''message'', PyStr msg_no_channels)],
                  (db1\<lparr>notifications :=
                         AList.update i (n\<lparr>is_delivered := False\<rparr>) (notifications db1)\<rparr>, net))
               \<and> logs db1 = logs db"
    if "u \<in> set (users db)" "get_or_create_notification u t m nid db = (Some (i, n), db1)"
      "map_of (profiles db) u = Some p" "get_available_channels p = []"
    using that get_or_create_notification_frame[OF that(2)]
    by (simp add: send_notification_def priority_channels_def py_or_def
        set_delivered_and_save_Some)
  have d: "length (logs db) <
        length (logs (fst (snd (send_notification cfg w u t m (Some []) nid (db, net)))))"
    if h: "u \<in> set (users db)" "get_or_create_notification u t m nid db = (Some (i, n), db1)"
      "map_of (profiles db) u = Some p" "get_available_channels p \<noteq> []"
  proof -
    have ne: "priority_channels (Some []) p \<noteq> []"
      using h(4) by (simp add: priority_channels_def py_or_def)
    have e: "send_notification cfg w u t m (Some []) nid (db, net) =
          send_notification_loop cfg w p t m (Some (i, n)) (priority_channels (Some []) p) (db1, net)"
      by (rule send_notification_enters_loop[OF h(1,2,3) ne])
    obtain res db' net' where r: "send_notification_loop cfg w p t m (Some (i, n))
          (priority_channels (Some []) p) (db1, net) = (res, (db', net'))"
      by (metis prod.exhaust)
    from loop_logs_grow[OF ne r] get_or_create_notification_frame[OF h(2)] e r
    show ?thesis by simp
  qed
  from a b c d show ?thesis by simp
qed

text \<open>
  User 2 has a profile without contact fields: the run with an empty explicit list ends in
  the "no available channels" error. For user 1 a non-empty explicit list is kept and an
  empty one becomes the three auto-selected channels.
\<close>

theorem explicit_channels_used_unless_empty_witness:
  "send_notification settings_full world_up 2 ''Alert'' ''Body'' (Some []) None (db_demo, []) =
     (Inr [(''status'', PyStr ''error''), (''notification_id'', PyInt 8),
           (''message'', PyStr msg_no_channels)],
      (db_demo\<lparr>notifications :=
          [(7, \<lparr>user = 1, title = ''Hello'', message = ''First'', is_delivered = True\<rparr>),
           (8, \<lparr>user = 2, title = ''Alert'', message = ''Body'', is_delivered = False\<rparr>)]\<rparr>,
       []))
   \<and> priority_channels (Some [''sms'']) profile_all = [''sms'']
   \<and> priority_channels (Some []) profile_all = [''email'', ''sms'', ''telegram'']"
proof -
  let ?n = "\<lparr>user = 2, title = ''Alert'', message = ''Body'', is_delivered = False\<rparr>"
  let ?db1 = "db_demo\<lparr>notifications := notifications db_demo @ [(8, ?n)]\<rparr>"
  have h1: "(2::int) \<in> set (users db_demo)" by (simp add: db_demo_def)
  have h2: "get_or_create_notification 2 ''Alert'' ''Body'' None db_demo = (Some (8, ?n), ?db1)"
    by (simp add: get_or_create_notification_def Notification_create_def fresh_id_def
        db_demo_def Let_def)
  have h3: "map_of (profiles db_demo) 2 = Some profile_empty" by (simp add: db_demo_def)
  have h4: "get_available_channels profile_empty = []"
    by (simp add: get_available_channels_def truthy_def profile_empty_def)
  show ?thesis
    using explicit_channels_used_unless_empty[where u = 2 and db = db_demo and t = "''Alert''"
        and m = "''Body''" and nid = None and i = 8 and n = ?n and ?db1.0 = ?db1
        and p = profile_empty and cfg = settings_full and w = world_up and net = "[]"
        and cs = "[''sms'']"]
      explicit_channels_used_unless_empty[where cs = "[]" and p = profile_all]
      h1 h2 h3 h4
    by (simp add: eval_defs)
qed

text \<open>
  C2. The code at the inputs where an explicit notification id (999) does not resolve:
  \<open>_get_or_create_notification\<close> returns \<open>None\<close> and the caller goes on with it. For
  user 1 (profile with an email address) the mail is sent and the creation of the log row
  raises; for user 3 (no profile) the assignment \<open>notification.is_delivered = False\<close>
  raises. Neither run returns a result dictionary. The third run shows the
  recipient-not-found result for comparison (user 4 does not exist). The lemma
  \<open>missing_notification_id_always_raises\<close> above shows that every run with an existing
  recipient and an unresolved non-zero id ends in an exception, with the database unchanged.
\<close>

theorem missing_notification_id_raises:
  "send_notification settings_full world_up 1 ''Alert'' ''Body'' None (Some 999) (db_demo, []) =
     (Inl (IntegrityError ''NOT NULL constraint failed: notification_id''),
      (db_demo, [SendMail ''Alert'' ''Body'' (Some ''noreply@corp.test'') [''user@example.com'']]))
   \<and> send_notification settings_full world_up 3 ''Alert'' ''Body'' None (Some 999) (db_demo, []) =
     (Inl (AttributeError
             (quoted ''NoneType'' @ '' object has no attribute '' @ quoted ''is_delivered'')),
      (db_demo, []))
   \<and> send_notification settings_full world_up 4 ''Alert'' ''Body'' None (Some 999) (db_demo, []) =
     (Inr [(''status'', PyStr ''error''), (''message'', PyStr ''Polzovatel s ID 4 ne najden'')],
      (db_demo, []))"
  by (simp add: eval_defs msg_user_not_found_def str_int_def digit_char_def)

text \<open>
  C3. Take a run whose recipient, notification \<open>(i, n)\<close> and profile resolve and whose
  channel list is \<open>pre @ c # post\<close>, where the senders of the channels of \<open>pre\<close> all
  fail and the sender of \<open>c\<close> then succeeds, so that \<open>c\<close> is the first succeeding channel,
  at position \<open>length pre + 1\<close>. The run returns the success result naming \<open>c\<close>; it
  appends exactly \<open>length pre + 1\<close> log rows, one per channel tried in order, all but the
  last with outcome false and the last with outcome true; the notification's delivered flag
  is stored as true; and the network is the one left by the sender of \<open>c\<close>: no channel of
  \<open>post\<close> is invoked, and the result does not depend on \<open>post\<close>.
\<close>

theorem first_success_stops_dispatch:
  assumes "u \<in> set (users db)"
    and "get_or_create_notification u t m nid db = (Some (i, n), db1)"
    and "map_of (profiles db) u = Some p"
    and "priority_channels chans p = pre @ c # post"
    and "failed_attempts cfg w p t m pre net = Some (es, net1)"
    and "send_by_channel cfg w c p t m net1 = (Inr (True, e), net2)"
  shows "send_notification cfg w u t m chans nid (db, net) =
           (Inr [(''status'', PyStr ''success''), (''notification_id'', PyInt i),
                 (''channel'', PyStr c)],
            (db1\<lparr>logs := logs db @ failure_logs i pre es @
                    [\<lparr>notification = i, channel = c, status = True, error_message = e\<rparr>],
                 notifications := AList.update i (n\<lparr>is_delivered := True\<rparr>) (notifications db1)\<rparr>,
             net2))
         \<and> length (failure_logs i pre es @
                    [\<lparr>notification = i, channel = c, status = True, error_message = e\<rparr>])
             = length pre + 1
         \<and> map channel (failure_logs i pre es) = pre
         \<and> list_all (\<lambda>l. \<not> status l) (failure_logs i pre es)
         \<and> map_of (AList.update i (n\<lparr>is_delivered := True\<rparr>) (notifications db1)) i
             = Some (n\<lparr>is_delivered := True\<rparr>)"
proof -
  have ne: "priority_channels chans p \<noteq> []" using assms(4) by simp
  have lg: "logs db1 = logs db"
    using get_or_create_notification_frame[OF assms(2)] by simp
  have "send_notification cfg w u t m chans nid (db, net) =
        send_notification_loop cfg w p t m (Some (i, n)) (pre @ c # post) (db1, net)"
    using send_notification_enters_loop[OF assms(1,2,3) ne] assms(4) by simp
  also have "\<dots> = send_notification_loop cfg w p t m (Some (i, n)) (c # post)
        (db1\<lparr>logs := logs db1 @ failure_logs i pre es\<rparr>, net1)"
    by (rule loop_skips_failures[OF assms(5)])
  also have "\<dots> = (Inr [(''status'', PyStr ''success''), (''notification_id'', PyInt i),
                 (''channel'', PyStr c)],
            (db1\<lparr>logs := logs db @ failure_logs i pre es @
                    [\<lparr>notification = i, channel = c, status = True, error_message = e\<rparr>],
                 notifications := AList.update i (n\<lparr>is_delivered := True\<rparr>) (notifications db1)\<rparr>,
             net2))"
    using assms(6) lg
    by (simp add: NotificationLog_create_Some set_delivered_and_save_Some)
  finally have run: "send_notification cfg w u t m chans nid (db, net) =
           (Inr [(''status'', PyStr ''success''), (''notification_id'', PyInt i),
                 (''channel'', PyStr c)],
            (db1\<lparr>logs := logs db @ failure_logs i pre es @
                    [\<lparr>notification = i, channel = c, status = True, error_message = e\<rparr>],
                 notifications := AList.update i (n\<lparr>is_delivered := True\<rparr>) (notifications db1)\<rparr>,
             net2))" .
  have len: "length (failure_logs i pre es) = length pre"
    using failed_attempts_length[OF assms(5)] by (simp add: failure_logs_def)
  have ch: "map channel (failure_logs i pre es) = pre"
    using failed_attempts_length[OF assms(5)] by (rule failure_logs_channels)
  have fl: "list_all (\<lambda>l. \<not> status l) (failure_logs i pre es)"
    by (auto simp: failure_logs_def list_all_iff)
  show ?thesis using run len ch fl by (simp add: update_conv')
qed

text \<open>
  The mail server is down and user 1 has all three contact fields: the email attempt fails,
  the SMS attempt succeeds, two rows (false, true) are logged and the chat-bot channel is
  never contacted.
\<close>

theorem first_success_stops_dispatch_witness:
  "send_notification settings_full world_mail_down 1 ''Alert'' ''Body'' None None (db_demo, []) =
     (Inr [(''status'', PyStr ''success''), (''notification_id'', PyInt 8),
           (''channel'', PyStr ''sms'')],
      (db_demo\<lparr>logs :=
          [\<lparr>notification = 8, channel = ''email'', status = False,
             error_message = Some ''Connection refused''\<rparr>,
           \<lparr>notification = 8, channel = ''sms'', status = True, error_message = None\<rparr>],
         notifications :=
          [(7, \<lparr>user = 1, title = ''Hello'', message = ''First'', is_delivered = True\<rparr>),
           (8, \<lparr>user = 1, title = ''Alert'', message = ''Body'', is_delivered = True\<rparr>)]\<rparr>,
       [SendMail ''Alert'' ''Body'' (Some ''noreply@corp.test'') [''user@example.com''],
        TwilioMessagesCreate (Some ''AC1'') (Some ''tok'') ''Body'' (Some ''+15550000000'')
          ''+15551234567'']))"
proof -
  let ?n = "\<lparr>user = 1, title = ''Alert'', message = ''Body'', is_delivered = False\<rparr>"
  let ?db1 = "db_demo\<lparr>notifications := notifications db_demo @ [(8, ?n)]\<rparr>"
  let ?net1 = "[SendMail ''Alert'' ''Body'' (Some ''noreply@corp.test'') [''user@example.com'']]"
  let ?net2 = "?net1 @ [TwilioMessagesCreate (Some ''AC1'') (Some ''tok'') ''Body''
                  (Some ''+15550000000'') ''+15551234567'']"
  have h1: "(1::int) \<in> set (users db_demo)" by (simp add: db_demo_def)
  have h2: "get_or_create_notification 1 ''Alert'' ''Body'' None db_demo = (Some (8, ?n), ?db1)"
    by (simp add: get_or_create_notification_def Notification_create_def fresh_id_def
        db_demo_def Let_def)
  have h3: "map_of (profiles db_demo) 1 = Some profile_all" by (simp add: db_demo_def)
  have h4: "priority_channels None profile_all = [EMAIL] @ SMS # [TELEGRAM]"
    by (simp add: priority_channels_def py_or_def get_available_channels_def truthy_def
        profile_all_def Let_def)
  have h5: "failed_attempts settings_full world_mail_down profile_all ''Alert'' ''Body'' [EMAIL] []
            = Some ([Some ''Connection refused''], ?net1)"
    by (simp add: eval_defs)
  have h6: "send_by_channel settings_full world_mail_down SMS profile_all ''Alert'' ''Body'' ?net1
            = (Inr (True, None), ?net2)"
    by (simp add: eval_defs)
  show ?thesis
    using first_success_stops_dispatch[OF h1 h2 h3 h4 h5 h6]
    by (simp add: eval_defs)
qed

text \<open>
  C4. Take a run whose recipient, notification \<open>(i, n)\<close> and profile resolve and whose
  channel list \<open>cs\<close> is not empty, and let every sender called in turn fail. The run
  appends exactly one log row per channel of \<open>cs\<close>, in order and all with outcome false,
  stores the notification's delivered flag as false and returns the error result with the
  "delivery failed on all channels" message.
\<close>

theorem all_fail_dispatch:
  assumes "u \<in> set (users db)"
    and "get_or_create_notification u t m nid db = (Some (i, n), db1)"
    and "map_of (profiles db) u = Some p"
    and "priority_channels chans p = cs"
    and "cs \<noteq> []"
    and "failed_attempts cfg w p t m cs net = Some (es, net1)"
  shows "send_notification cfg w u t m chans nid (db, net) =
           (Inr [(''status'', PyStr ''error''), (''notification_id'', PyInt i),
                 (''message'', PyStr msg_all_failed)],
            (db1\<lparr>logs := logs db @ failure_logs i cs es,
                 notifications := AList.update i (n\<lparr>is_delivered := False\<rparr>) (notifications db1)\<rparr>,
             net1))
         \<and> length (failure_logs i cs es) = length cs
         \<and> map channel (failure_logs i cs es) = cs
         \<and> list_all (\<lambda>l. \<not> status l) (failure_logs i cs es)
         \<and> map_of (AList.update i (n\<lparr>is_delivered := False\<rparr>) (notifications db1)) i
             = Some (n\<lparr>is_delivered := False\<rparr>)"
proof -
  have ne: "priority_channels chans p \<noteq> []" using assms(4,5) by simp
  have lg: "logs db1 = logs db"
    using get_or_create_notification_frame[OF assms(2)] by simp
  have "send_notification cfg w u t m chans nid (db, net) =
        send_notification_loop cfg w p t m (Some (i, n)) (cs @ []) (db1, net)"
    using send_notification_enters_loop[OF assms(1,2,3) ne] assms(4) by simp
  also have "\<dots> = send_notification_loop cfg w p t m (Some (i, n)) []
        (db1\<lparr>logs := logs db1 @ failure_logs i cs es\<rparr>, net1)"
    by (rule loop_skips_failures[OF assms(6)])
  also have "\<dots> = (Inr [(''status'', PyStr ''error''), (''notification_id'', PyInt i),
                 (''message'', PyStr msg_all_failed)],
            (db1\<lparr>logs := logs db @ failure_logs i cs es,
                 notifications := AList.update i (n\<lparr>is_delivered := False\<rparr>) (notifications db1)\<rparr>,
             net1))"
    using lg by (simp add: set_delivered_and_save_Some)
  finally have run: "send_notification cfg w u t m chans nid (db, net) =
           (Inr [(''status'', PyStr ''error''), (''notification_id'', PyInt i),
                 (''message'', PyStr msg_all_failed)],
            (db1\<lparr>logs := logs db @ failure_logs i cs es,
                 notifications := AList.update i (n\<lparr>is_delivered := False\<rparr>) (notifications db1)\<rparr>,
             net1))" .
  have len: "length es = length cs"
    using failed_attempts_length[OF assms(6)] .
  have ch: "map channel (failure_logs i cs es) = cs"
    using len by (rule failure_logs_channels)
  have fl: "list_all (\<lambda>l. \<not> status l) (failure_logs i cs es)"
    by (auto simp: failure_logs_def list_all_iff)
  show ?thesis using run len ch fl by (simp add: update_conv' failure_logs_def)
qed

text \<open>
  Every transport is down; notification 7 of user 1, delivered before, is sent again: three
  failed attempts are logged and the flag becomes false.
\<close>

theorem all_fail_dispatch_witness:
  "send_notification settings_full world_down 1 ''Hello'' ''First'' None (Some 7) (db_demo, []) =
     (Inr [(''status'', PyStr ''error''), (''notification_id'', PyInt 7),
           (''message'', PyStr msg_all_failed)],
      (db_demo\<lparr>logs :=
          [\<lparr>notification = 7, channel = ''email'', status = False,
             error_message = Some ''Connection refused''\<rparr>,
           \<lparr>notification = 7, channel = ''sms'', status = False,
             error_message = Some ''Oshibka Twilio: Invalid number''\<rparr>,
           \<lparr>notification = 7, channel = ''telegram'', status = False,
             error_message = Some ''chat not found''\<rparr>],
         notifications :=
          [(7, \<lparr>user = 1, title = ''Hello'', message = ''First'', is_delivered = False\<rparr>)]\<rparr>,
       [SendMail ''Hello'' ''First'' (Some ''noreply@corp.test'') [''user@example.com''],
        TwilioMessagesCreate (Some ''AC1'') (Some ''tok'') ''First'' (Some ''+15550000000'')
          ''+15551234567'',
        RequestsPost ''https://api.telegram.org/bot123:abc/sendMessage'' ''4242'' ''First''
          ''HTML'']))"
proof -
  let ?n = "\<lparr>user = 1, title = ''Hello'', message = ''First'', is_delivered = True\<rparr>"
  let ?net = "[SendMail ''Hello'' ''First'' (Some ''noreply@corp.test'') [''user@example.com''],
        TwilioMessagesCreate (Some ''AC1'') (Some ''tok'') ''First'' (Some ''+15550000000'')
          ''+15551234567'',
        RequestsPost ''https://api.telegram.org/bot123:abc/sendMessage'' ''4242'' ''First''
          ''HTML'']"
  have h1: "(1::int) \<in> set (users db_demo)" by (simp add: db_demo_def)
  have h2: "get_or_create_notification 1 ''Hello'' ''First'' (Some 7) db_demo
            = (Some (7, ?n), db_demo)"
    by (simp add: get_or_create_notification_def db_demo_def)
  have h3: "map_of (profiles db_demo) 1 = Some profile_all" by (simp add: db_demo_def)
  have h4: "priority_channels None profile_all = [EMAIL, SMS, TELEGRAM]"
    by (simp add: priority_channels_def py_or_def get_available_channels_def truthy_def
        profile_all_def Let_def)
  have h5: "[EMAIL, SMS, TELEGRAM] \<noteq> []" by simp
  have h6: "failed_attempts settings_full world_down profile_all ''Hello'' ''First''
              [EMAIL, SMS, TELEGRAM] []
            = Some ([Some ''Connection refused'', Some ''Oshibka Twilio: Invalid number'',
                     Some ''chat not found''], ?net)"
    by (simp add: eval_defs msg_twilio_error_def)
  show ?thesis
    using all_fail_dispatch[OF h1 h2 h3 h4 h5 h6]
    by (simp add: eval_defs)
qed

text \<open>
  C5. For every contact profile the channel selector equals the fixed list Email, SMS,
  ChatBot filtered by "the corresponding profile field is non-empty": the order is
  fixed, a channel is present if and only if its field is populated, and the result is
  empty when no field is populated. The selector is a total function of the profile
  alone, so it has no effect and no error.
\<close>

theorem get_available_channels_spec:
  "get_available_channels profile = selectChannels_spec profile
   \<and> (EMAIL \<in> set (get_available_channels profile) \<longleftrightarrow> truthy (email profile))
   \<and> (SMS \<in> set (get_available_channels profile) \<longleftrightarrow> truthy (phone_number profile))
   \<and> (TELEGRAM \<in> set (get_available_channels profile) \<longleftrightarrow> truthy (telegram_chat_id profile))
   \<and> set (get_available_channels profile) \<subseteq> {EMAIL, SMS, TELEGRAM}
   \<and> ((\<not> truthy (email profile) \<and> \<not> truthy (phone_number profile)
        \<and> \<not> truthy (telegram_chat_id profile)) \<longleftrightarrow> get_available_channels profile = [])"
  by (auto simp: get_available_channels_def selectChannels_spec_def populated_def
        EMAIL_def SMS_def TELEGRAM_def Let_def)

theorem get_available_channels_spec_witness:
  "get_available_channels \<lparr>phone_number = Some ''+15551234567'', email = None,
      telegram_chat_id = Some ''42''\<rparr> = [SMS, TELEGRAM]"
  using get_available_channels_spec
    [of "\<lparr>phone_number = Some ''+15551234567'', email = None, telegram_chat_id = Some ''42''\<rparr>"]
  by (simp add: selectChannels_spec_def populated_def truthy_def EMAIL_def SMS_def TELEGRAM_def)

text \<open>
  C6. Whatever the settings, the input and the answers of the outside world, each of the
  three senders returns a pair of success flag and optional error text and lets no exception
  out. The loop, run on any channel list with a resolved notification, then returns a result
  dictionary, and the rows it logs are one row per channel of a prefix of the list, in
  order: the whole list, or the channels up to the first one whose attempt succeeded.
\<close>

theorem senders_never_raise:
  "(\<exists>b e net'. send_email cfg w addr t m net = (Inr (b, e), net'))
   \<and> (\<exists>b e net'. send_sms cfg w phone m net = (Inr (b, e), net'))
   \<and> (\<exists>b e net'. send_telegram cfg w chat m net = (Inr (b, e), net'))
   \<and> (\<exists>r db' net' ls.
        send_notification_loop cfg w p t m (Some (i, n)) cs (db, net) = (Inr r, (db', net'))
        \<and> logs db' = logs db @ ls
        \<and> map channel ls = take (length ls) cs
        \<and> (length ls = length cs \<or> (ls \<noteq> [] \<and> status (last ls))))"
  using send_email_returns[of cfg w addr t m net] send_sms_returns[of cfg w phone m net]
    send_telegram_returns[of cfg w chat m net] loop_log_shape[of cfg w p t m i n cs db net]
  by blast

text \<open>
  With every transport down each sender turns the transport's exception or rejection into a
  failure pair, and the loop over \<open>email\<close> and the unknown channel \<open>fax\<close> logs both
  attempts and returns.
\<close>

theorem senders_never_raise_witness:
  "send_email settings_full world_down (Some ''user@example.com'') ''Alert'' ''Body'' [] =
     (Inr (False, Some ''Connection refused''),
      [SendMail ''Alert'' ''Body'' (Some ''noreply@corp.test'') [''user@example.com'']])
   \<and> send_sms settings_full world_down (Some ''+1 (555) 123-4567'') ''Body'' [] =
     (Inr (False, Some ''Oshibka Twilio: Invalid number''),
      [TwilioMessagesCreate (Some ''AC1'') (Some ''tok'') ''Body'' (Some ''+15550000000'')
          ''+15551234567''])
   \<and> send_telegram settings_full world_down (Some ''4242'') ''Body'' [] =
     (Inr (False, Some ''chat not found''),
      [RequestsPost ''https://api.telegram.org/bot123:abc/sendMessage'' ''4242'' ''Body''
          ''HTML''])
   \<and> (\<exists>r db' net'.
        send_notification_loop settings_full world_down profile_all ''Alert'' ''Body''
          (Some (7, \<lparr>user = 1, title = ''Hello'', message = ''First'', is_delivered = True\<rparr>))
          [''email'', ''fax''] (db_demo, []) = (Inr r, (db', net'))
        \<and> map channel (logs db') = [''email'', ''fax''])"
  using senders_never_raise[of settings_full world_down "Some ''user@example.com''"
      "''Alert''" "''Body''" "[]" "Some ''+1 (555) 123-4567''" "Some ''4242''" profile_all 7
      "\<lparr>user = 1, title = ''Hello'', message = ''First'', is_delivered = True\<rparr>"
      "[''email'', ''fax'']" db_demo]
  by (simp add: eval_defs msg_twilio_error_def msg_unknown_channel_def)




text \<open>
  C8. For the addresses \<open>not-an-email\<close> and \<open>user@@bad\<close>, for an absent address and for
  the empty one, and more generally for every address that fails the validation, the mail
  sender returns the invalid-address failure and leaves the network as it was: no send is
  attempted. An address passes the validation exactly when it begins with a non-empty
  local part without \<open>@\<close>, then \<open>@\<close>, a non-empty domain without \<open>@\<close>, a dot and at least
  one more character other than \<open>@\<close>.
\<close>

theorem send_email_rejects_malformed:
  "send_email cfg w (Some ''not-an-email'') t m net = (Inr (False, Some msg_invalid_email), net)
   \<and> send_email cfg w (Some ''user@@bad'') t m net = (Inr (False, Some msg_invalid_email), net)
   \<and> send_email cfg w None t m net = (Inr (False, Some msg_invalid_email), net)
   \<and> send_email cfg w (Some []) t m net = (Inr (False, Some msg_invalid_email), net)
   \<and> (\<not> valid_email a \<longrightarrow>
        send_email cfg w a t m net = (Inr (False, Some msg_invalid_email), net))
   \<and> (valid_email (Some s) \<longleftrightarrow>
        (\<exists>a b c r. s = a @ ''@'' @ b @ ''.'' @ c @ r
           \<and> a \<noteq> [] \<and> b \<noteq> [] \<and> c \<noteq> []
           \<and> CHR ''@'' \<notin> set a \<and> CHR ''@'' \<notin> set b \<and> CHR ''@'' \<notin> set c))"
proof -
  have "\<not> valid_email (Some ''not-an-email'')" "\<not> valid_email (Some ''user@@bad'')"
    "\<not> valid_email None" "\<not> valid_email (Some [])"
    by (simp_all add: valid_email_def EMAIL_RE_def)
  then have inv: "send_email cfg w (Some ''not-an-email'') t m net =
        (Inr (False, Some msg_invalid_email), net)"
    "send_email cfg w (Some ''user@@bad'') t m net = (Inr (False, Some msg_invalid_email), net)"
    "send_email cfg w None t m net = (Inr (False, Some msg_invalid_email), net)"
    "send_email cfg w (Some []) t m net = (Inr (False, Some msg_invalid_email), net)"
    by (simp_all add: send_email_invalid_address)
  have pat: "valid_email (Some s) \<longleftrightarrow>
        (\<exists>a b c r. s = a @ ''@'' @ b @ ''.'' @ c @ r
           \<and> a \<noteq> [] \<and> b \<noteq> [] \<and> c \<noteq> []
           \<and> CHR ''@'' \<notin> set a \<and> CHR ''@'' \<notin> set b \<and> CHR ''@'' \<notin> set c)"
    unfolding valid_email_def option.case re_match_EMAIL_RE by auto
  from inv pat show ?thesis by (simp add: send_email_invalid_address)
qed

text \<open>
  An address without a dot after the \<open>@\<close> fails the validation and is rejected without a
  request, even with complete settings and the mail server up.
\<close>

theorem send_email_rejects_malformed_witness:
  "\<not> valid_email (Some ''user@localhost'')
   \<and> send_email settings_full world_up (Some ''user@localhost'') ''Alert'' ''Body'' [] =
       (Inr (False, Some msg_invalid_email), [])
   \<and> send_email settings_full world_up (Some ''user@@bad'') ''Alert'' ''Body'' [] =
       (Inr (False, Some msg_invalid_email), [])"
proof -
  have v: "\<not> valid_email (Some ''user@localhost'')"
    by (simp add: valid_email_def EMAIL_RE_def)
  show ?thesis
    using send_email_rejects_malformed[where a = "Some ''user@localhost''"
        and cfg = settings_full and w = world_up and t = "''Alert''" and m = "''Body''"
        and net = "[]"] v
    by simp
qed

text \<open>
  C9. Take any run whose recipient exists and whose notification resolves to \<open>(i, n)\<close>
  (found by its id, or created). The run returns a result naming notification \<open>i\<close>; the
  log rows of the database after the run are those before it followed by the rows \<open>ls\<close> of
  this run, every one of them a row of that notification; and the stored delivered flag of
  the notification is true exactly when some row of \<open>ls\<close> has outcome true, which is also
  exactly when the result status is success. When the profile is missing or there is no
  channel, no row is logged and the flag is stored false; when every channel fails, no row
  of \<open>ls\<close> has outcome true and the flag is stored false. Conversely every run that
  returns a result naming a notification satisfies the same equivalence, and a run that
  finds no recipient returns the recipient-not-found result and changes nothing.
\<close>

theorem delivered_iff_success_logged:
  "(u \<in> set (users db) \<longrightarrow>
    get_or_create_notification u t m nid db = (Some (i, n), db1) \<longrightarrow>
      (\<exists>r db' net' ls n'.
        send_notification cfg w u t m chans nid (db, net) = (Inr r, (db', net'))
        \<and> map_of r ''notification_id'' = Some (PyInt i)
        \<and> logs db' = logs db @ ls
        \<and> list_all (\<lambda>l. notification l = i) ls
        \<and> map_of (notifications db') i = Some n'
        \<and> is_delivered n' = list_ex status ls
        \<and> is_delivered n' = (map_of r ''status'' = Some (PyStr ''success''))
        \<and> ((map_of (profiles db) u = None
             \<or> (\<exists>p. map_of (profiles db) u = Some p \<and> priority_channels chans p = []))
            \<longrightarrow> ls = [] \<and> \<not> is_delivered n')))
   \<and> (send_notification cfg w u t m chans nid (db, net) = (Inr r0, (db0, net0)) \<longrightarrow>
       map_of r0 ''notification_id'' = Some (PyInt j) \<longrightarrow>
         (\<exists>ls n'. logs db0 = logs db @ ls
            \<and> list_all (\<lambda>l. notification l = j) ls
            \<and> map_of (notifications db0) j = Some n'
            \<and> is_delivered n' = list_ex status ls
            \<and> is_delivered n' = (map_of r0 ''status'' = Some (PyStr ''success''))))
   \<and> (u \<notin> set (users db) \<longrightarrow>
       send_notification cfg w u t m chans nid (db, net) =
         (Inr [(''status'', PyStr ''error''), (''message'', PyStr (msg_user_not_found u))],
          (db, net)))"
proof (intro conjI impI)
  assume "u \<in> set (users db)" "get_or_create_notification u t m nid db = (Some (i, n), db1)"
  then show "\<exists>r db' net' ls n'.
        send_notification cfg w u t m chans nid (db, net) = (Inr r, (db', net'))
        \<and> map_of r ''notification_id'' = Some (PyInt i)
        \<and> logs db' = logs db @ ls
        \<and> list_all (\<lambda>l. notification l = i) ls
        \<and> map_of (notifications db') i = Some n'
        \<and> is_delivered n' = list_ex status ls
        \<and> is_delivered n' = (map_of r ''status'' = Some (PyStr ''success''))
        \<and> ((map_of (profiles db) u = None
             \<or> (\<exists>p. map_of (profiles db) u = Some p \<and> priority_channels chans p = []))
            \<longrightarrow> ls = [] \<and> \<not> is_delivered n')"
    by (rule resolved_run_delivered_iff)
next
  assume "send_notification cfg w u t m chans nid (db, net) = (Inr r0, (db0, net0))"
    "map_of r0 ''notification_id'' = Some (PyInt j)"
  then show "\<exists>ls n'. logs db0 = logs db @ ls
            \<and> list_all (\<lambda>l. notification l = j) ls
            \<and> map_of (notifications db0) j = Some n'
            \<and> is_delivered n' = list_ex status ls
            \<and> is_delivered n' = (map_of r0 ''status'' = Some (PyStr ''success''))"
    by (rule completed_run_delivered_iff)
next
  assume "u \<notin> set (users db)"
  then show "send_notification cfg w u t m chans nid (db, net) =
         (Inr [(''status'', PyStr ''error''), (''message'', PyStr (msg_user_not_found u))],
          (db, net))"
    by (simp add: send_notification_def)
qed

text \<open>
  Notification 7 of user 1 is stored as delivered; it is sent again while every transport
  is down. The run returns the error result, logs three failed attempts and stores the flag
  as false.
\<close>

theorem delivered_iff_success_logged_witness:
  "map_option is_delivered (map_of (notifications db_demo) 7) = Some True
   \<and> fst (send_notification settings_full world_down 1 ''Hello'' ''First'' None (Some 7)
            (db_demo, []))
       = Inr [(''status'', PyStr ''error''), (''notification_id'', PyInt 7),
              (''message'', PyStr msg_all_failed)]
   \<and> map status (logs (fst (snd (send_notification settings_full world_down 1 ''Hello''
            ''First'' None (Some 7) (db_demo, []))))) = [False, False, False]
   \<and> map_option is_delivered (map_of (notifications (fst (snd (send_notification settings_full
            world_down 1 ''Hello'' ''First'' None (Some 7) (db_demo, []))))) 7) = Some False"
proof -
  let ?n = "\<lparr>user = 1, title = ''Hello'', message = ''First'', is_delivered = True\<rparr>"
  have h1: "(1::int) \<in> set (users db_demo)" by (simp add: db_demo_def)
  have h2: "get_or_create_notification 1 ''Hello'' ''First'' (Some 7) db_demo
            = (Some (7, ?n), db_demo)"
    by (simp add: get_or_create_notification_def db_demo_def)
  from delivered_iff_success_logged[where u = 1 and db = db_demo and t = "''Hello''"
      and m = "''First''" and nid = "Some 7" and i = 7 and n = ?n and ?db1.0 = db_demo
      and cfg = settings_full and w = world_down and chans = None and net = "[]"] h1 h2
  obtain r db' net' ls n' where
    run: "send_notification settings_full world_down 1 ''Hello'' ''First'' None (Some 7)
            (db_demo, []) = (Inr r, (db', net'))"
    and lg: "logs db' = logs db_demo @ ls"
    and fl: "map_of (notifications db') 7 = Some n'"
    and iff: "is_delivered n' = list_ex status ls"
    by blast
  from run demo_run_world_down have
    r: "r = [(''status'', PyStr ''error''), (''notification_id'', PyInt 7),
             (''message'', PyStr msg_all_failed)]"
    and l: "map status (logs db') = [False, False, False]"
    by auto
  from l lg have "map status ls = [False, False, False]" by (simp add: db_demo_def)
  then have "\<not> list_ex status ls" by (auto simp: list_ex_iff)
  with iff fl have "map_option is_delivered (map_of (notifications db') 7) = Some False"
    by simp
  with run r l show ?thesis by (simp add: db_demo_def)
qed

text \<open>
  C10. Take a run whose recipient, notification \<open>(i, n)\<close> and profile resolve, with the
  explicit channel list \<open>pre @ c # post\<close> where \<open>c\<close> is none of the three channel names
  and the attempts on \<open>pre\<close> all fail, so that the loop reaches \<open>c\<close>. The attempt on \<open>c\<close>
  fails with the "unknown channel" message followed by \<open>c\<close> and issues no request; the run
  logs that failed attempt for \<open>c\<close> and continues as the loop on \<open>post\<close>; and the run
  returns a result dictionary: it does not raise.
\<close>

theorem unknown_channel_logged_and_skipped:
  assumes "u \<in> set (users db)"
    and "get_or_create_notification u t m nid db = (Some (i, n), db1)"
    and "map_of (profiles db) u = Some p"
    and "\<not> known_channel c"
    and "failed_attempts cfg w p t m pre net = Some (es, net1)"
  shows "send_by_channel cfg w c p t m net1 = (Inr (False, Some (msg_unknown_channel c)), net1)
     \<and> send_notification cfg w u t m (Some (pre @ c # post)) nid (db, net) =
         send_notification_loop cfg w p t m (Some (i, n)) post
           (db1\<lparr>logs := logs db @ failure_logs i pre es @
                [\<lparr>notification = i, channel = c, status = False,
                  error_message = Some (msg_unknown_channel c)\<rparr>]\<rparr>, net1)
     \<and> (\<exists>r st'. send_notification cfg w u t m (Some (pre @ c # post)) nid (db, net)
                  = (Inr r, st'))"
proof -
  have pc: "priority_channels (Some (pre @ c # post)) p = pre @ c # post"
    by (simp add: priority_channels_def py_or_def)
  have lg: "logs db1 = logs db"
    using get_or_create_notification_frame[OF assms(2)] by simp
  have s: "send_by_channel cfg w c p t m net1 = (Inr (False, Some (msg_unknown_channel c)), net1)"
    by (rule send_by_channel_unknown[OF assms(4)])
  have "send_notification cfg w u t m (Some (pre @ c # post)) nid (db, net) =
        send_notification_loop cfg w p t m (Some (i, n)) (pre @ c # post) (db1, net)"
    using send_notification_enters_loop[OF assms(1,2,3), of "Some (pre @ c # post)"] pc by simp
  also have "\<dots> = send_notification_loop cfg w p t m (Some (i, n)) (c # post)
        (db1\<lparr>logs := logs db1 @ failure_logs i pre es\<rparr>, net1)"
    by (rule loop_skips_failures[OF assms(5)])
  also have "\<dots> = send_notification_loop cfg w p t m (Some (i, n)) post
           (db1\<lparr>logs := logs db @ failure_logs i pre es @
                [\<lparr>notification = i, channel = c, status = False,
                  error_message = Some (msg_unknown_channel c)\<rparr>]\<rparr>, net1)"
    using loop_continues_after_failure[OF s] lg by simp
  finally have run: "send_notification cfg w u t m (Some (pre @ c # post)) nid (db, net) =
         send_notification_loop cfg w p t m (Some (i, n)) post
           (db1\<lparr>logs := logs db @ failure_logs i pre es @
                [\<lparr>notification = i, channel = c, status = False,
                  error_message = Some (msg_unknown_channel c)\<rparr>]\<rparr>, net1)" .
  from run loop_returns[of cfg w p t m i n post] s show ?thesis by auto
qed

text \<open>
  The explicit list \<open>fax\<close>, \<open>sms\<close>: the unknown channel is logged as failed and the SMS
  channel then delivers.
\<close>

theorem unknown_channel_logged_and_skipped_witness:
  "send_notification settings_full world_up 1 ''Alert'' ''Body'' (Some [''fax'', ''sms'']) None
     (db_demo, []) =
     (Inr [(''status'', PyStr ''success''), (''notification_id'', PyInt 8),
           (''channel'', PyStr ''sms'')],
      (db_demo\<lparr>logs :=
          [\<lparr>notification = 8, channel = ''fax'', status = False,
             error_message = Some ''Neizvestnyj kanal otpravki: fax''\<rparr>,
           \<lparr>notification = 8, channel = ''sms'', status = True, error_message = None\<rparr>],
         notifications :=
          [(7, \<lparr>user = 1, title = ''Hello'', message = ''First'', is_delivered = True\<rparr>),
           (8, \<lparr>user = 1, title = ''Alert'', message = ''Body'', is_delivered = True\<rparr>)]\<rparr>,
       [TwilioMessagesCreate (Some ''AC1'') (Some ''tok'') ''Body'' (Some ''+15550000000'')
          ''+15551234567'']))"
proof -
  let ?n = "\<lparr>user = 1, title = ''Alert'', message = ''Body'', is_delivered = False\<rparr>"
  let ?db1 = "db_demo\<lparr>notifications := notifications db_demo @ [(8, ?n)]\<rparr>"
  have h1: "(1::int) \<in> set (users db_demo)" by (simp add: db_demo_def)
  have h2: "get_or_create_notification 1 ''Alert'' ''Body'' None db_demo = (Some (8, ?n), ?db1)"
    by (simp add: get_or_create_notification_def Notification_create_def fresh_id_def
        db_demo_def Let_def)
  have h3: "map_of (profiles db_demo) 1 = Some profile_all" by (simp add: db_demo_def)
  have h4: "\<not> known_channel ''fax''"
    by (simp add: known_channel_def EMAIL_def SMS_def TELEGRAM_def)
  have h5: "failed_attempts settings_full world_up profile_all ''Alert'' ''Body'' [] []
            = Some ([], [])" by simp
  show ?thesis
    using unknown_channel_logged_and_skipped[OF h1 h2 h3 h4 h5, of "[''sms'']"]
    by (simp add: eval_defs msg_unknown_channel_def)
qed

end
